theory Spec2Isabelle
  imports Main "HOL-Library.Word"
begin

section \<open>Go values\<close>

text \<open>
  The package \<^verbatim>\<open>pkg/github/projects.go\<close> is embedded function by function. Go's
  \<^verbatim>\<open>int\<close> (on a 64-bit platform) and \<^verbatim>\<open>int64\<close> are 64-bit words, \<^verbatim>\<open>int32\<close> a
  32-bit word. A \<^verbatim>\<open>float64\<close> is carried as its 64 bits; the three operations the package
  applies to one (the conversions \<^verbatim>\<open>int64(v)\<close> and \<^verbatim>\<open>float64(i)\<close> and the comparison
  \<^verbatim>\<open>!=\<close>) belong to the language and are parameters of the model.
\<close>

type_synonym go_int = "64 word"
type_synonym int64 = "64 word"
type_synonym int32 = "32 word"
type_synonym float64 = "64 word"

record float64_ops =
  toInt64 :: "float64 \<Rightarrow> int64"
  fromInt64 :: "int64 \<Rightarrow> float64"
  differ :: "float64 \<Rightarrow> float64 \<Rightarrow> bool"

text \<open>A value of type \<^verbatim>\<open>any\<close>, as a decoded JSON argument or a Go literal supplies it.\<close>

datatype any =
    AnyNil
  | AnyBool bool
  | AnyFloat64 float64
  | AnyInt64 int64
  | AnyInt go_int
  | AnyString string
  | AnyArray "any list"
  | AnyObject "(string \<times> any) list"

text \<open>
  A text built by \<^verbatim>\<open>fmt.Sprintf\<close> or \<^verbatim>\<open>fmt.Errorf\<close> is kept as its format with its
  operands, in order, not rendered. An \<^verbatim>\<open>error\<close> is such a text; \<^verbatim>\<open>err.Error()\<close>
  is the error itself.
\<close>

datatype formatted = Sprintf string "operand list"
and operand =
    OpString string
  | OpInt go_int
  | OpFloat64 float64
  | OpAny any
  | OpError formatted

type_synonym error = formatted

abbreviation Errorf :: "string \<Rightarrow> operand list \<Rightarrow> error" where
  "Errorf \<equiv> Sprintf"

text \<open>
  What a call returns: it panics (a nil pointer is dereferenced), it returns a non-nil
  \<^verbatim>\<open>error\<close>, or it returns its value with a nil error.
\<close>

datatype 'a outcome = Panic | Err error | Ok 'a

definition StatusOK :: go_int where
  "StatusOK = 200"

definition StatusNoContent :: go_int where
  "StatusNoContent = 204"

definition ProjectUpdateFailedError :: string where
  "ProjectUpdateFailedError = ''failed to update a project item''"

definition ProjectAddFailedError :: string where
  "ProjectAddFailedError = ''failed to add a project item''"

definition ProjectDeleteFailedError :: string where
  "ProjectDeleteFailedError = ''failed to delete a project item''"

section \<open>The REST client's data\<close>

text \<open>
  The structs of the client library, with the fields this package reads. A pointer field
  is an \<open>option\<close>, \<open>None\<close> for nil. The elements of a decoded array of fields or of
  items are structs; the elements of a field's option array are tested for nil by the
  package and so are \<open>option\<close>s.
\<close>

record ListProjectsPaginationOptions =
  PerPage :: "go_int option"
  After :: "string option"
  Before :: "string option"

record ListProjectsOptions = ListProjectsPaginationOptions +
  Query :: "string option"

record ListProjectItemsOptions = ListProjectsOptions +
  Fields :: "int64 list"

record UpdateProjectV2Field =
  ID :: int64
  Value :: any

record UpdateProjectItemOptions =
  Fields :: "UpdateProjectV2Field list"

record ProjectV2TextContent =
  Raw :: "string option"

record ProjectV2FieldOption =
  ID :: "string option"
  Name :: "ProjectV2TextContent option"

record ProjectV2Field =
  ID :: "int64 option"
  Name :: "string option"
  Options :: "ProjectV2FieldOption option list"

record User =
  Login :: "string option"

record Repository =
  Name :: "string option"
  Owner :: "User option"

record Issue =
  Number :: "go_int option"
  Repository :: "Repository option"

record ProjectV2ItemContent =
  Issue :: "Issue option"

record ProjectV2Item =
  ID :: "int64 option"
  Content :: "ProjectV2ItemContent option"

text \<open>
  A response: its status code, the two pagination cursors, and what
  \<^verbatim>\<open>io.ReadAll(resp.Body)\<close> gives. Closing the body has no effect on any value here and
  is not modelled.
\<close>

record response =
  StatusCode :: go_int
  After :: string
  Before :: string
  Body :: "error + string"

section \<open>Calls, replies and the call log\<close>

text \<open>
  Every request the package sends, REST or GraphQL, is a \<open>call\<close>. The GraphQL variables
  \<^verbatim>\<open>githubv4.Int(int32(n))\<close> are 32-bit.
\<close>

datatype call =
    GetUserProject string go_int
  | GetOrganizationProject string go_int
  | ListUserProjects string ListProjectsOptions
  | ListOrganizationProjects string ListProjectsOptions
  | ListUserProjectFields string go_int ListProjectsOptions
  | ListOrganizationProjectFields string go_int ListProjectsOptions
  | ListUserProjectItems string go_int ListProjectItemsOptions
  | ListOrganizationProjectItems string go_int ListProjectItemsOptions
  | UpdateUserProjectItem string go_int int64 UpdateProjectItemOptions
  | UpdateOrganizationProjectItem string go_int int64 UpdateProjectItemOptions
  | DeleteUserProjectItem string go_int int64
  | DeleteOrganizationProjectItem string go_int int64
  | QueryIssueID string string int32
  | QueryPullRequestID string string int32
  | QueryUserProjectID string int32
  | QueryOrganizationProjectID string int32
  | MutateAddProjectV2ItemById any any

text \<open>
  What a REST method returns: the response pointer, the error, and the decoded value in
  the slot of the method's result type (\<open>'p\<close> is the client's project struct).
\<close>

record 'p reply =
  resp :: "response option"
  err :: "error option"
  gotProjects :: "'p list"
  gotFields :: "ProjectV2Field list"
  gotItems :: "ProjectV2Item list"
  gotItem :: "ProjectV2Item option"

text \<open>What a GraphQL query or mutation returns: the error and the node ID it filled in.\<close>

record gql_reply =
  gql_err :: "error option"
  gql_id :: any

text \<open>
  The platform is deterministic in its history: a client answers a call given the calls
  sent before it. Every function that sends requests takes the log of calls so far and
  returns it extended, in order.
\<close>

type_synonym 'p client = "call list \<Rightarrow> call \<Rightarrow> 'p reply"
type_synonym gql_client = "call list \<Rightarrow> call \<Rightarrow> gql_reply"

definition send :: "(call list \<Rightarrow> call \<Rightarrow> 'r) \<Rightarrow> call list \<Rightarrow> call \<Rightarrow> 'r \<times> call list" where
  "send client log c = (client log c, log @ [c])"

text \<open>
  The test \<^verbatim>\<open>err == nil && resp.StatusCode == http.StatusOK\<close>: false on an error without
  looking at the response, a panic (\<open>None\<close>) on a nil response with a nil error.
\<close>

definition statusOK :: "'p reply \<Rightarrow> bool option" where
  "statusOK r =
     (case err r of
        Some e \<Rightarrow> Some False
      | None \<Rightarrow> (case resp r of None \<Rightarrow> None | Some rs \<Rightarrow> Some (StatusCode rs = StatusOK)))"

section \<open>Tool results\<close>

text \<open>
  The text of a result is a literal or a message, or the output of \<^verbatim>\<open>json.Marshal\<close>,
  which is carried as the value that was marshalled. \<^verbatim>\<open>json.Marshal\<close> fails only on
  values JSON cannot express (channels, functions, cycles, non-finite floats); the maps and
  structs marshalled here hold none, so it returns its text.
\<close>

datatype 'a result_text = Literal string | Marshalled 'a

definition json_Marshal :: "'a \<Rightarrow> error + 'a result_text" where
  "json_Marshal v = Inr (Marshalled v)"

text \<open>
  The four constructors of a tool result, declared in \<^verbatim>\<open>pkg/utils\<close> and
  \<^verbatim>\<open>pkg/errors\<close>, with their arguments: a text result, an error result with its message,
  an API error result (message, response, error) and an API status error result (message,
  response, body read).
\<close>

datatype 'a tool_result =
    ResultText "'a result_text"
  | ResultError formatted
  | GitHubAPIErrorResponse string "response option" error
  | GitHubAPIStatusErrorResponse string response string

section \<open>Page information\<close>

record pageInfo =
  HasNextPage :: bool
  HasPreviousPage :: bool
  NextCursor :: string
  PrevCursor :: string

definition buildPageInfo :: "response \<Rightarrow> pageInfo" where
  "buildPageInfo rs =
     \<lparr>HasNextPage = (response.After rs \<noteq> ''''),
      HasPreviousPage = (response.Before rs \<noteq> ''''),
      NextCursor = response.After rs,
      PrevCursor = response.Before rs\<rparr>"

text \<open>
  The JSON object of a \<open>pageInfo\<close>, by the struct's tags: \<^verbatim>\<open>hasNextPage\<close> and
  \<^verbatim>\<open>hasPreviousPage\<close> always, \<^verbatim>\<open>nextCursor\<close> and \<^verbatim>\<open>prevCursor\<close> with
  \<^verbatim>\<open>omitempty\<close>, which leaves a string member out when it is empty.
\<close>

datatype json = JBool bool | JString string

definition pageInfo_json :: "pageInfo \<Rightarrow> (string \<times> json) list" where
  "pageInfo_json p =
     [(''hasNextPage'', JBool (HasNextPage p)), (''hasPreviousPage'', JBool (HasPreviousPage p))]
     @ (if NextCursor p = '''' then [] else [(''nextCursor'', JString (NextCursor p))])
     @ (if PrevCursor p = '''' then [] else [(''prevCursor'', JString (PrevCursor p))])"

section \<open>Building the update payload\<close>

fun validateAndConvertToInt64 :: "float64_ops \<Rightarrow> any \<Rightarrow> int64 outcome" where
  "validateAndConvertToInt64 fl (AnyFloat64 v) =
     (let intVal = toInt64 fl v
      in if differ fl (fromInt64 fl intVal) v
         then Err (Errorf ''value must be a valid integer (got %v)'' [OpFloat64 v])
         else Ok intVal)"
| "validateAndConvertToInt64 fl (AnyInt64 v) = Ok v"
| "validateAndConvertToInt64 fl (AnyInt v) = Ok v"
| "validateAndConvertToInt64 fl v = Err (Errorf ''value must be a number (got %T)'' [OpAny v])"

text \<open>The input is a Go map, \<open>None\<close> for the nil map.\<close>

definition buildUpdateProjectItem ::
  "float64_ops \<Rightarrow> (string \<rightharpoonup> any) option \<Rightarrow> UpdateProjectItemOptions outcome" where
  "buildUpdateProjectItem fl input =
     (case input of
        None \<Rightarrow> Err (Errorf ''updated_field must be an object'' [])
      | Some m \<Rightarrow>
          (case m ''id'' of
             None \<Rightarrow> Err (Errorf ''updated_field.id is required'' [])
           | Some idField \<Rightarrow>
               (case validateAndConvertToInt64 fl idField of
                  Panic \<Rightarrow> Panic
                | Err e \<Rightarrow> Err (Errorf ''updated_field.id: %w'' [OpError e])
                | Ok fieldID \<Rightarrow>
                    (case m ''value'' of
                       None \<Rightarrow> Err (Errorf ''updated_field.value is required'' [])
                     | Some valueField \<Rightarrow>
                         Ok \<lparr>UpdateProjectItemOptions.Fields =
                               [\<lparr>UpdateProjectV2Field.ID = fieldID, Value = valueField\<rparr>]\<rparr>))))"

section \<open>Deleting an item\<close>

definition deleteProjectItem ::
  "'p client \<Rightarrow> call list \<Rightarrow> string \<Rightarrow> string \<Rightarrow> go_int \<Rightarrow> int64
     \<Rightarrow> 'a tool_result outcome \<times> call list" where
  "deleteProjectItem client log owner ownerType projectNumber itemID =
     (let (r, log1) = send client log
            (if ownerType = ''org''
             then DeleteOrganizationProjectItem owner projectNumber itemID
             else DeleteUserProjectItem owner projectNumber itemID)
      in case err r of
           Some e \<Rightarrow> (Ok (GitHubAPIErrorResponse ProjectDeleteFailedError (resp r) e), log1)
         | None \<Rightarrow>
             (case resp r of
                None \<Rightarrow> (Panic, log1)
              | Some rs \<Rightarrow>
                  if StatusCode rs \<noteq> StatusNoContent
                  then (case Body rs of
                          Inl e \<Rightarrow> (Err (Errorf ''failed to read response body: %w'' [OpError e]), log1)
                        | Inr body \<Rightarrow>
                            (Ok (GitHubAPIStatusErrorResponse ProjectDeleteFailedError rs body), log1))
                  else (Ok (ResultText (Literal ''project item successfully deleted'')), log1)))"

section \<open>Detecting the owner type\<close>

definition detectOwnerType ::
  "'p client \<Rightarrow> call list \<Rightarrow> string \<Rightarrow> go_int \<Rightarrow> string outcome \<times> call list" where
  "detectOwnerType client log owner projectNumber =
     (let (r1, log1) = send client log (GetUserProject owner projectNumber)
      in case statusOK r1 of
           None \<Rightarrow> (Panic, log1)
         | Some True \<Rightarrow> (Ok ''user'', log1)
         | Some False \<Rightarrow>
             (let (r2, log2) = send client log1 (GetOrganizationProject owner projectNumber)
              in case statusOK r2 of
                   None \<Rightarrow> (Panic, log2)
                 | Some True \<Rightarrow> (Ok ''org'', log2)
                 | Some False \<Rightarrow>
                     (Err (Errorf
                        ''could not determine owner type for %s with project %d: owner is neither a user nor an org with this project''
                        [OpString owner, OpInt projectNumber]), log2)))"

section \<open>Listing projects under both owner types\<close>

text \<open>
  Modelled from the spec: the struct \<^verbatim>\<open>MinimalProject\<close> and the function
  \<^verbatim>\<open>convertToMinimalProject\<close> are declared in another file of the package. Of the struct
  the field \<^verbatim>\<open>OwnerType\<close>, which this file assigns, is modelled, and the rest is carried
  in \<open>Details\<close>; the conversion is the parameter \<open>conv\<close>.
\<close>

record 'd MinimalProject =
  Details :: 'd
  OwnerType :: string

text \<open>The response map: the keys \<^verbatim>\<open>projects\<close> and \<^verbatim>\<open>note\<close>, and \<^verbatim>\<open>pageInfo\<close> when set.\<close>

record 'd ProjectsResponse =
  projects :: "'d MinimalProject list"
  note' :: string
  pageInfo :: "pageInfo option"

definition bothOwnerTypesNote :: string where
  "bothOwnerTypesNote = ''Results include both user and org projects. Each project includes 'owner_type' field. Pagination is limited when owner_type is not specified - specify 'owner_type' for full pagination support.''"

text \<open>
  The test \<^verbatim>\<open>err != nil || resp == nil || resp.StatusCode != http.StatusOK\<close>, which
  stops at the first disjunct that holds.
\<close>

definition notListed :: "'p reply \<Rightarrow> bool" where
  "notListed r =
     (case err r of
        Some e \<Rightarrow> True
      | None \<Rightarrow> (case resp r of None \<Rightarrow> True | Some rs \<Rightarrow> StatusCode rs \<noteq> StatusOK))"

definition listProjectsFromBothOwnerTypes ::
  "('p \<Rightarrow> 'd MinimalProject) \<Rightarrow> 'p client \<Rightarrow> call list \<Rightarrow> string \<Rightarrow> ListProjectsOptions
     \<Rightarrow> 'd ProjectsResponse tool_result outcome \<times> call list" where
  "listProjectsFromBothOwnerTypes conv client log owner opts =
     (let (u, log1) = send client log (ListUserProjects owner opts)
      in case statusOK u of
           None \<Rightarrow> (Panic, log1)
         | Some userOK \<Rightarrow>
             (let userPart = (if userOK
                              then map (\<lambda>project. (conv project)\<lparr>OwnerType := ''user''\<rparr>) (gotProjects u)
                              else []);
                  (g, log2) = send client log1 (ListOrganizationProjects owner opts)
              in case statusOK g of
                   None \<Rightarrow> (Panic, log2)
                 | Some orgOK \<Rightarrow>
                     (let minimalProjects = userPart @
                            (if orgOK
                             then map (\<lambda>project. (conv project)\<lparr>OwnerType := ''org''\<rparr>) (gotProjects g)
                             else []);
                          rsp = (if orgOK then resp g
                                 else (case resp u of Some rs \<Rightarrow> Some rs | None \<Rightarrow> None))
                      in if notListed u \<and> notListed g
                         then (Ok (ResultError (Sprintf
                                 ''failed to list projects for owner '%s': not found as user or organization''
                                 [OpString owner])), log2)
                         else (case json_Marshal
                                      \<lparr>projects = minimalProjects, note' = bothOwnerTypesNote,
                                       pageInfo = (case rsp of None \<Rightarrow> None
                                                   | Some rs \<Rightarrow> Some (buildPageInfo rs))\<rparr> of
                                 Inl e \<Rightarrow> (Err (Errorf ''failed to marshal response: %w'' [OpError e]), log2)
                               | Inr r \<Rightarrow> (Ok (ResultText r), log2)))))"

section \<open>Resolving a single-select option by name\<close>

text \<open>The names the two loops compare: the empty string where the pointer is nil.\<close>

definition fieldNameOf :: "ProjectV2Field \<Rightarrow> string" where
  "fieldNameOf f = (case ProjectV2Field.Name f of None \<Rightarrow> [] | Some n \<Rightarrow> n)"

definition optionNameOf :: "ProjectV2FieldOption \<Rightarrow> string" where
  "optionNameOf p =
     (case ProjectV2FieldOption.Name p of
        None \<Rightarrow> []
      | Some n \<Rightarrow> (case Raw n of None \<Rightarrow> [] | Some s \<Rightarrow> s))"

text \<open>The inner loop, over the options of the field found.\<close>

primrec scanOptions :: "string \<Rightarrow> ProjectV2FieldOption option list \<Rightarrow> string option" where
  "scanOptions optionName [] = None"
| "scanOptions optionName (opt # rest) =
     (case opt of
        None \<Rightarrow> scanOptions optionName rest
      | Some p \<Rightarrow>
          (case ProjectV2FieldOption.ID p of
             None \<Rightarrow> scanOptions optionName rest
           | Some optID \<Rightarrow>
               (let optName = optionNameOf p
                in if optName = optionName then Some optID
                   else scanOptions optionName rest)))"

text \<open>The outer loop, over the fields listed.\<close>

primrec scanFields :: "string \<Rightarrow> string \<Rightarrow> ProjectV2Field list \<Rightarrow> (string \<times> int64) outcome" where
  "scanFields fieldName optionName [] =
     Err (Errorf ''field %q not found in project'' [OpString fieldName])"
| "scanFields fieldName optionName (f # rest) =
     (let name = fieldNameOf f
      in if name \<noteq> fieldName then scanFields fieldName optionName rest
         else (case ProjectV2Field.ID f of
                 None \<Rightarrow> scanFields fieldName optionName rest
               | Some fieldID \<Rightarrow>
                   (case scanOptions optionName (Options f) of
                      Some optID \<Rightarrow> Ok (optID, fieldID)
                    | None \<Rightarrow> Err (Errorf ''option %q not found in field %q''
                                      [OpString optionName, OpString fieldName]))))"

definition fieldsPage :: ListProjectsOptions where
  "fieldsPage = \<lparr>PerPage = Some 100, After = None, Before = None, Query = None\<rparr>"

definition resolveSingleSelectOptionByName ::
  "'p client \<Rightarrow> call list \<Rightarrow> string \<Rightarrow> string \<Rightarrow> go_int \<Rightarrow> string \<Rightarrow> string
     \<Rightarrow> (string \<times> int64) outcome \<times> call list" where
  "resolveSingleSelectOptionByName client log owner ownerType projectNumber fieldName optionName =
     (let (r, log1) = send client log
            (if ownerType = ''org''
             then ListOrganizationProjectFields owner projectNumber fieldsPage
             else ListUserProjectFields owner projectNumber fieldsPage)
      in case err r of
           Some e \<Rightarrow> (Err e, log1)
         | None \<Rightarrow>
             (case resp r of
                None \<Rightarrow> (Panic, log1)
              | Some rs \<Rightarrow> (scanFields fieldName optionName (gotFields r), log1)))"

section \<open>Updating an item\<close>

definition updateProjectItem ::
  "float64_ops \<Rightarrow> 'p client \<Rightarrow> call list \<Rightarrow> string \<Rightarrow> string \<Rightarrow> go_int \<Rightarrow> int64
     \<Rightarrow> (string \<rightharpoonup> any) option \<Rightarrow> ProjectV2Item option tool_result outcome \<times> call list" where
  "updateProjectItem fl client log owner ownerType projectNumber itemID fieldValue =
     (case buildUpdateProjectItem fl fieldValue of
        Panic \<Rightarrow> (Panic, log)
      | Err e \<Rightarrow> (Ok (ResultError e), log)
      | Ok updatePayload \<Rightarrow>
          (let (r, log1) = send client log
                 (if ownerType = ''org''
                  then UpdateOrganizationProjectItem owner projectNumber itemID updatePayload
                  else UpdateUserProjectItem owner projectNumber itemID updatePayload)
           in case err r of
                Some e \<Rightarrow> (Ok (GitHubAPIErrorResponse ProjectUpdateFailedError (resp r) e), log1)
              | None \<Rightarrow>
                  (case resp r of
                     None \<Rightarrow> (Panic, log1)
                   | Some rs \<Rightarrow>
                       if StatusCode rs \<noteq> StatusOK
                       then (case Body rs of
                               Inl e \<Rightarrow>
                                 (Err (Errorf ''failed to read response body: %w'' [OpError e]), log1)
                             | Inr body \<Rightarrow>
                                 (Ok (GitHubAPIStatusErrorResponse ProjectUpdateFailedError rs body), log1))
                       else (case json_Marshal (gotItem r) of
                               Inl e \<Rightarrow>
                                 (Err (Errorf ''failed to marshal response: %w'' [OpError e]), log1)
                             | Inr t \<Rightarrow> (Ok (ResultText t), log1)))))"

section \<open>Setting Priority and Size\<close>

text \<open>
  Each block resolves the option of its field, then updates the item with the map
  \<^verbatim>\<open>{"id": fieldID, "value": optionID}\<close>. Of what the update returns only the error is
  looked at; the result is dropped.
\<close>

definition setPriorityAndSize ::
  "float64_ops \<Rightarrow> 'p client \<Rightarrow> call list \<Rightarrow> string \<Rightarrow> string \<Rightarrow> go_int \<Rightarrow> int64
     \<Rightarrow> string \<Rightarrow> string \<Rightarrow> formatted list outcome \<times> call list" where
  "setPriorityAndSize fl client log owner ownerType projectNumber itemID priority size' =
     (case (if priority \<noteq> []
            then (case resolveSingleSelectOptionByName client log owner ownerType projectNumber
                         ''Priority'' priority of
                    (Panic, log1) \<Rightarrow> (Panic, log1)
                  | (Err e, log1) \<Rightarrow> (Err (Errorf ''Priority: %w'' [OpError e]), log1)
                  | (Ok (optionID, fieldID), log1) \<Rightarrow>
                      (case updateProjectItem fl client log1 owner ownerType projectNumber itemID
                              (Some [''id'' \<mapsto> AnyInt64 fieldID, ''value'' \<mapsto> AnyString optionID]) of
                         (Panic, log2) \<Rightarrow> (Panic, log2)
                       | (Err e, log2) \<Rightarrow> (Err (Errorf ''set Priority: %w'' [OpError e]), log2)
                       | (Ok res, log2) \<Rightarrow>
                           (Ok [Sprintf ''Priority=%s'' [OpString priority]], log2)))
            else (Ok [], log)) of
        (Panic, log2) \<Rightarrow> (Panic, log2)
      | (Err e, log2) \<Rightarrow> (Err e, log2)
      | (Ok updates, log2) \<Rightarrow>
          (if size' \<noteq> []
           then (case resolveSingleSelectOptionByName client log2 owner ownerType projectNumber
                        ''Size'' size' of
                   (Panic, log3) \<Rightarrow> (Panic, log3)
                 | (Err e, log3) \<Rightarrow> (Err (Errorf ''Size: %w'' [OpError e]), log3)
                 | (Ok (optionID, fieldID), log3) \<Rightarrow>
                     (case updateProjectItem fl client log3 owner ownerType projectNumber itemID
                             (Some [''id'' \<mapsto> AnyInt64 fieldID, ''value'' \<mapsto> AnyString optionID]) of
                        (Panic, log4) \<Rightarrow> (Panic, log4)
                      | (Err e, log4) \<Rightarrow> (Err (Errorf ''set Size: %w'' [OpError e]), log4)
                      | (Ok res, log4) \<Rightarrow>
                          (Ok (updates @ [Sprintf ''Size=%s'' [OpString size']]), log4)))
           else (Ok updates, log2)))"

section \<open>Finding the item of an issue\<close>

text \<open>
  The repository test of the item loop: it rejects an issue only on a repository name, or
  an owner login, that is present and differs.
\<close>

definition otherRepository :: "string \<Rightarrow> string \<Rightarrow> Issue \<Rightarrow> bool" where
  "otherRepository repoOwner repoName issue =
     (case Repository issue of
        None \<Rightarrow> False
      | Some repo \<Rightarrow>
          (case Repository.Name repo of
             Some n \<Rightarrow> n \<noteq> repoName
           | None \<Rightarrow> False)
          \<or> (case Owner repo of
                None \<Rightarrow> False
              | Some u \<Rightarrow> (case Login u of Some l \<Rightarrow> l \<noteq> repoOwner | None \<Rightarrow> False)))"

text \<open>The loop over the items of one page: the ID of the first item it does not skip.\<close>

primrec scanItems :: "string \<Rightarrow> string \<Rightarrow> go_int \<Rightarrow> ProjectV2Item list \<Rightarrow> int64 option" where
  "scanItems repoOwner repoName issueNumber [] = None"
| "scanItems repoOwner repoName issueNumber (item # rest) =
     (case ProjectV2Item.ID item of
        None \<Rightarrow> scanItems repoOwner repoName issueNumber rest
      | Some itemID \<Rightarrow>
          (case Content item of
             None \<Rightarrow> scanItems repoOwner repoName issueNumber rest
           | Some content \<Rightarrow>
               (case Issue content of
                  None \<Rightarrow> scanItems repoOwner repoName issueNumber rest
                | Some issue \<Rightarrow>
                    (case Number issue of
                       None \<Rightarrow> scanItems repoOwner repoName issueNumber rest
                     | Some n \<Rightarrow>
                         if n \<noteq> issueNumber
                         then scanItems repoOwner repoName issueNumber rest
                         else if otherRepository repoOwner repoName issue
                         then scanItems repoOwner repoName issueNumber rest
                         else Some itemID))))"

text \<open>The items the loop does not skip: those that pass every test of its body.\<close>

definition matchesIssue :: "string \<Rightarrow> string \<Rightarrow> go_int \<Rightarrow> ProjectV2Item \<Rightarrow> bool" where
  "matchesIssue repoOwner repoName issueNumber item =
     (case ProjectV2Item.ID item of
        None \<Rightarrow> False
      | Some itemID \<Rightarrow>
          (case Content item of
             None \<Rightarrow> False
           | Some content \<Rightarrow>
               (case Issue content of
                  None \<Rightarrow> False
                | Some issue \<Rightarrow>
                    Number issue = Some issueNumber
                    \<and> \<not> otherRepository repoOwner repoName issue)))"

definition itemsPage :: ListProjectItemsOptions where
  "itemsPage = \<lparr>PerPage = Some 50, After = None, Before = None, Query = None,
                ListProjectItemsOptions.Fields = []\<rparr>"

definition listItems :: "string \<Rightarrow> string \<Rightarrow> go_int \<Rightarrow> ListProjectItemsOptions \<Rightarrow> call" where
  "listItems owner ownerType projectNumber opts =
     (if ownerType = ''org''
      then ListOrganizationProjectItems owner projectNumber opts
      else ListUserProjectItems owner projectNumber opts)"

definition itemNotFound :: "string \<Rightarrow> string \<Rightarrow> go_int \<Rightarrow> error" where
  "itemNotFound repoOwner repoName issueNumber =
     Errorf ''project item for issue %s/%s#%d not found (list may be paginated)''
       [OpString repoOwner, OpString repoName, OpInt issueNumber]"

text \<open>The loop \<^verbatim>\<open>for page := 0; page < 5; page++\<close>, from the iteration \<open>page\<close> on.\<close>

function scanPages ::
  "'p client \<Rightarrow> string \<Rightarrow> string \<Rightarrow> go_int \<Rightarrow> string \<Rightarrow> string \<Rightarrow> go_int
     \<Rightarrow> nat \<Rightarrow> ListProjectItemsOptions \<Rightarrow> call list \<Rightarrow> int64 outcome \<times> call list" where
  "scanPages client owner ownerType projectNumber repoOwner repoName issueNumber page opts log =
     (if page < 5
      then (let (r, log1) = send client log (listItems owner ownerType projectNumber opts)
            in case err r of
                 Some e \<Rightarrow> (Err e, log1)
               | None \<Rightarrow>
                   (case resp r of
                      None \<Rightarrow> (Panic, log1)
                    | Some rs \<Rightarrow>
                        (case scanItems repoOwner repoName issueNumber (gotItems r) of
                           Some itemID \<Rightarrow> (Ok itemID, log1)
                         | None \<Rightarrow>
                             if response.After rs = []
                             then (Err (itemNotFound repoOwner repoName issueNumber), log1)
                             else scanPages client owner ownerType projectNumber
                                    repoOwner repoName issueNumber (Suc page)
                                    (opts\<lparr>ListProjectsPaginationOptions.After := Some (response.After rs)\<rparr>)
                                    log1)))
      else (Err (itemNotFound repoOwner repoName issueNumber), log))"
  by pat_completeness auto
termination
  by (relation "measure (\<lambda>(client, owner, ownerType, projectNumber, repoOwner, repoName,
        issueNumber, page, opts, log). 5 - page)") auto

declare scanPages.simps [simp del]

definition findProjectItemIDByIssue ::
  "'p client \<Rightarrow> call list \<Rightarrow> string \<Rightarrow> string \<Rightarrow> go_int \<Rightarrow> string \<Rightarrow> string \<Rightarrow> go_int
     \<Rightarrow> int64 outcome \<times> call list" where
  "findProjectItemIDByIssue client log owner ownerType projectNumber repoOwner repoName issueNumber =
     scanPages client owner ownerType projectNumber repoOwner repoName issueNumber 0 itemsPage log"

section \<open>Adding an item\<close>

definition resolveIssueNodeID ::
  "gql_client \<Rightarrow> call list \<Rightarrow> string \<Rightarrow> string \<Rightarrow> go_int \<Rightarrow> any outcome \<times> call list" where
  "resolveIssueNodeID gqlClient log owner repo issueNumber =
     (let (q, log1) = send gqlClient log (QueryIssueID owner repo (ucast issueNumber))
      in case gql_err q of
           Some e \<Rightarrow> (Err (Errorf ''failed to resolve issue %s/%s#%d: %w''
                              [OpString owner, OpString repo, OpInt issueNumber, OpError e]), log1)
         | None \<Rightarrow> (Ok (gql_id q), log1))"

definition resolvePullRequestNodeID ::
  "gql_client \<Rightarrow> call list \<Rightarrow> string \<Rightarrow> string \<Rightarrow> go_int \<Rightarrow> any outcome \<times> call list" where
  "resolvePullRequestNodeID gqlClient log owner repo prNumber =
     (let (q, log1) = send gqlClient log (QueryPullRequestID owner repo (ucast prNumber))
      in case gql_err q of
           Some e \<Rightarrow> (Err (Errorf ''failed to resolve pull request %s/%s#%d: %w''
                              [OpString owner, OpString repo, OpInt prNumber, OpError e]), log1)
         | None \<Rightarrow> (Ok (gql_id q), log1))"

text \<open>The result map of \<^verbatim>\<open>addProjectItem\<close>: the keys \<^verbatim>\<open>id\<close> and \<^verbatim>\<open>message\<close>.\<close>

record AddResult =
  id :: any
  message :: formatted

definition addProjectItem ::
  "gql_client \<Rightarrow> call list \<Rightarrow> string \<Rightarrow> string \<Rightarrow> go_int \<Rightarrow> string \<Rightarrow> string \<Rightarrow> go_int
     \<Rightarrow> string \<Rightarrow> AddResult tool_result outcome \<times> call list" where
  "addProjectItem gqlClient log owner ownerType projectNumber itemOwner itemRepo itemNumber itemType =
     (if itemType \<noteq> ''issue'' \<and> itemType \<noteq> ''pull_request''
      then (Ok (ResultError (Sprintf
              (''item_type must be either 'issue' or 'pull_request'' @ [CHR 0x27]) [])), log)
      else (case (if itemType = ''issue''
                  then resolveIssueNodeID gqlClient log itemOwner itemRepo itemNumber
                  else resolvePullRequestNodeID gqlClient log itemOwner itemRepo itemNumber) of
              (Panic, log1) \<Rightarrow> (Panic, log1)
            | (Err e, log1) \<Rightarrow>
                (Ok (ResultError (Sprintf ''failed to resolve %s: %v''
                       [OpString itemType, OpError e])), log1)
            | (Ok nodeID, log1) \<Rightarrow>
                (let (p, log2) = send gqlClient log1
                       (if ownerType = ''org''
                        then QueryOrganizationProjectID owner (ucast projectNumber)
                        else QueryUserProjectID owner (ucast projectNumber))
                 in case gql_err p of
                      Some e \<Rightarrow>
                        (Ok (ResultError (Sprintf ''failed to get project ID: %v'' [OpError e])), log2)
                    | None \<Rightarrow>
                        (let (m, log3) = send gqlClient log2
                               (MutateAddProjectV2ItemById (gql_id p) nodeID)
                         in case gql_err m of
                              Some e \<Rightarrow>
                                (Ok (ResultError (Sprintf (ProjectAddFailedError @ '': %v'')
                                       [OpError e])), log3)
                            | None \<Rightarrow>
                                (case json_Marshal
                                        \<lparr>id = gql_id m,
                                         message = Sprintf
                                           ''Successfully added %s %s/%s#%d to project %s/%d''
                                           [OpString itemType, OpString itemOwner, OpString itemRepo,
                                            OpInt itemNumber, OpString owner, OpInt projectNumber]\<rparr> of
                                   Inl e \<Rightarrow>
                                     (Err (Errorf ''failed to marshal response: %w'' [OpError e]), log3)
                                 | Inr r \<Rightarrow> (Ok (ResultText r), log3))))))"

section \<open>Assigning an issue to an organization's project\<close>

text \<open>
  The test \<^verbatim>\<open>len(addText) > 0 && addText[0] != '{'\<close> on the text of a result: \<open>Some\<close>
  when it holds, with the text as the operand of the error that follows. The encoding of a
  map starts with a brace. A message starts with the first byte of its format where that
  byte is not a verb's, as in every format of \<^verbatim>\<open>addProjectItem\<close>. The text of an API
  error result, built in \<^verbatim>\<open>pkg/errors\<close>, is taken to start with its message;
  \<^verbatim>\<open>addProjectItem\<close> builds none. The first content of every result is a text
  content, so the type assertion on it holds.
\<close>

fun rejectedText :: "'a tool_result \<Rightarrow> operand option" where
  "rejectedText (ResultText (Literal s)) =
     (case s of [] \<Rightarrow> None | c # cs \<Rightarrow> if c \<noteq> CHR 0x7B then Some (OpString s) else None)"
| "rejectedText (ResultText (Marshalled v)) = None"
| "rejectedText (ResultError (Sprintf f ops)) =
     (case f of [] \<Rightarrow> None
      | c # cs \<Rightarrow> if c \<noteq> CHR 0x7B then Some (OpError (Sprintf f ops)) else None)"
| "rejectedText (GitHubAPIErrorResponse msg rs e) =
     (case msg of [] \<Rightarrow> None | c # cs \<Rightarrow> if c \<noteq> CHR 0x7B then Some (OpString msg) else None)"
| "rejectedText (GitHubAPIStatusErrorResponse msg rs body) =
     (case msg of [] \<Rightarrow> None | c # cs \<Rightarrow> if c \<noteq> CHR 0x7B then Some (OpString msg) else None)"

text \<open>The result map: the keys \<^verbatim>\<open>item_id\<close>, \<^verbatim>\<open>message\<close> and \<^verbatim>\<open>updates\<close>.\<close>

record AssignResult =
  item_id :: int64
  message :: formatted
  updates :: "formatted list"

definition assignIssueToOrgProjectWithFields ::
  "float64_ops \<Rightarrow> 'p client \<Rightarrow> gql_client \<Rightarrow> call list \<Rightarrow> string \<Rightarrow> go_int \<Rightarrow> string \<Rightarrow> string
     \<Rightarrow> go_int \<Rightarrow> string \<Rightarrow> string \<Rightarrow> AssignResult outcome \<times> call list" where
  "assignIssueToOrgProjectWithFields fl client gqlClient log org projectNumber itemOwner itemRepo
       issueNumber priority size' =
     (case addProjectItem gqlClient log org ''org'' projectNumber itemOwner itemRepo issueNumber
             ''issue'' of
        (Panic, log1) \<Rightarrow> (Panic, log1)
      | (Err e, log1) \<Rightarrow> (Err (Errorf ''add issue to project: no result'' []), log1)
      | (Ok addResult, log1) \<Rightarrow>
          (case rejectedText addResult of
             Some addText \<Rightarrow> (Err (Errorf ''add issue to project: %s'' [addText]), log1)
           | None \<Rightarrow>
               (case findProjectItemIDByIssue client log1 org ''org'' projectNumber
                       itemOwner itemRepo issueNumber of
                  (Panic, log2) \<Rightarrow> (Panic, log2)
                | (Err e, log2) \<Rightarrow> (Err (Errorf ''find project item id: %w'' [OpError e]), log2)
                | (Ok numericID, log2) \<Rightarrow>
                    (let result =
                           \<lparr>item_id = numericID,
                            message = Sprintf ''Added issue %s/%s#%d to project %s/%d''
                              [OpString itemOwner, OpString itemRepo, OpInt issueNumber,
                               OpString org, OpInt projectNumber],
                            updates = []\<rparr>
                     in if priority \<noteq> [] \<or> size' \<noteq> []
                        then (case setPriorityAndSize fl client log2 org ''org'' projectNumber
                                     numericID priority size' of
                                (Panic, log3) \<Rightarrow> (Panic, log3)
                              | (Err e, log3) \<Rightarrow> (Err e, log3)
                              | (Ok ups, log3) \<Rightarrow> (Ok (result\<lparr>updates := ups\<rparr>), log3))
                        else (Ok result, log2)))))"

section \<open>Example platforms\<close>

text \<open>Responses, replies and clients that the examples below run the functions on.\<close>

definition httpResponse :: "go_int \<Rightarrow> string \<Rightarrow> response" where
  "httpResponse status after =
     \<lparr>StatusCode = status, After = after, Before = [], Body = Inr ''upstream body''\<rparr>"

text \<open>A response of status 200 whose body the client has already closed.\<close>

definition closedBody :: response where
  "closedBody =
     \<lparr>StatusCode = 200, After = [], Before = [],
      Body = Inl (Errorf ''http: read on closed response body'' [])\<rparr>"

definition replied :: "response \<Rightarrow> 'p reply" where
  "replied rs = \<lparr>resp = Some rs, err = None, gotProjects = [], gotFields = [], gotItems = [],
                  gotItem = None\<rparr>"

definition refused :: "go_int \<Rightarrow> 'p reply" where
  "refused status = \<lparr>resp = Some (httpResponse status []), err = Some (Errorf ''unexpected status'' []),
                  gotProjects = [], gotFields = [], gotItems = [], gotItem = None\<rparr>"

definition unreachable :: "'p reply" where
  "unreachable = \<lparr>resp = None, err = Some (Errorf ''connection refused'' []),
                  gotProjects = [], gotFields = [], gotItems = [], gotItem = None\<rparr>"

fun orgOnly :: "unit client" where
  "orgOnly log (GetOrganizationProject owner n) = replied (httpResponse 200 [])"
| "orgOnly log c = refused 404"

fun orgOnlyUnreachableFirst :: "unit client" where
  "orgOnlyUnreachableFirst log (GetOrganizationProject owner n) = replied (httpResponse 200 [])"
| "orgOnlyUnreachableFirst log c = unreachable"

definition titled :: "string \<Rightarrow> string MinimalProject" where
  "titled t = \<lparr>Details = t, OwnerType = []\<rparr>"

definition listing :: "go_int \<Rightarrow> string \<Rightarrow> string list \<Rightarrow> string reply" where
  "listing status after ps =
     \<lparr>resp = Some (httpResponse status after), err = None, gotProjects = ps, gotFields = [],
      gotItems = [], gotItem = None\<rparr>"

definition failing :: "string reply" where
  "failing = \<lparr>resp = Some (httpResponse 404 []), err = Some (Errorf ''404 Not Found'' []),
               gotProjects = [], gotFields = [], gotItems = [], gotItem = None\<rparr>"

fun bothScopes :: "string client" where
  "bothScopes log (ListUserProjects owner opts) = listing 200 ''u-next'' [''alpha'', ''beta'']"
| "bothScopes log (ListOrganizationProjects owner opts) = listing 200 ''o-next'' [''gamma'']"
| "bothScopes log c = failing"



definition anyPage :: ListProjectsOptions where
  "anyPage = \<lparr>PerPage = Some 50, After = None, Before = None, Query = None\<rparr>"

definition selectOption :: "string \<Rightarrow> string \<Rightarrow> ProjectV2FieldOption option" where
  "selectOption optID name =
     Some \<lparr>ProjectV2FieldOption.ID = Some optID,
           ProjectV2FieldOption.Name = Some \<lparr>Raw = Some name\<rparr>\<rparr>"

definition priorityField :: ProjectV2Field where
  "priorityField =
     \<lparr>ProjectV2Field.ID = Some 42, ProjectV2Field.Name = Some ''Priority'',
      Options = [selectOption ''opt1'' ''High'', selectOption ''opt2'' ''Low'']\<rparr>"

fun priorityBoard :: "unit client" where
  "priorityBoard log (ListOrganizationProjectFields owner n opts) =
     (replied (httpResponse 200 []))\<lparr>gotFields := [priorityField]\<rparr>"
| "priorityBoard log (ListUserProjectFields owner n opts) =
     (replied (httpResponse 200 []))\<lparr>gotFields := [priorityField]\<rparr>"
| "priorityBoard log c = refused 404"

definition issueItem :: "int64 \<Rightarrow> go_int \<Rightarrow> (string \<times> string) option \<Rightarrow> ProjectV2Item" where
  "issueItem i n repo =
     \<lparr>ProjectV2Item.ID = Some i,
      Content = Some \<lparr>Issue = Some
        \<lparr>Number = Some n,
         Repository = (case repo of
                         None \<Rightarrow> None
                       | Some (ownerLogin, name) \<Rightarrow>
                           Some \<lparr>Repository.Name = Some name,
                                 Owner = Some \<lparr>Login = Some ownerLogin\<rparr>\<rparr>)\<rparr>\<rparr>\<rparr>"

definition itemsReply :: "string \<Rightarrow> ProjectV2Item list \<Rightarrow> unit reply" where
  "itemsReply after its = (replied (httpResponse 200 after))\<lparr>gotItems := its\<rparr>"





fun unlabelled :: "unit client" where
  "unlabelled log (ListOrganizationProjectItems owner n opts) =
     itemsReply [] [issueItem 3000 7 None, issueItem 3001 7 (Some (''octo'', ''repo''))]"
| "unlabelled log c = refused 404"

definition orgItems :: "string option \<Rightarrow> call" where
  "orgItems after =
     ListOrganizationProjectItems ''acme'' 3
       \<lparr>PerPage = Some 50, After = after, Before = None, Query = None,
        ListProjectItemsOptions.Fields = []\<rparr>"

definition sizeField :: ProjectV2Field where
  "sizeField =
     \<lparr>ProjectV2Field.ID = Some 43, ProjectV2Field.Name = Some ''Size'',
      Options = [selectOption ''s1'' ''Small'', selectOption ''s2'' ''Large'']\<rparr>"

fun taggingBoard :: "unit client" where
  "taggingBoard log (ListOrganizationProjectFields owner n opts) =
     (replied (httpResponse 200 []))\<lparr>gotFields := [priorityField, sizeField]\<rparr>"
| "taggingBoard log (UpdateOrganizationProjectItem owner n i payload) =
     (replied (httpResponse 200 []))\<lparr>gotItem := Some (issueItem i 7 None)\<rparr>"
| "taggingBoard log (ListOrganizationProjectItems owner n opts) =
     itemsReply [] [issueItem 2001 7 (Some (''octo'', ''repo''))]"
| "taggingBoard log c = refused 404"

fun refusingUpdates :: "unit client" where
  "refusingUpdates log (ListOrganizationProjectFields owner n opts) =
     (replied (httpResponse 200 []))\<lparr>gotFields := [priorityField, sizeField]\<rparr>"
| "refusingUpdates log c = refused 422"

definition graph :: gql_client where
  "graph log c = \<lparr>gql_err = None, gql_id = AnyString ''NODE''\<rparr>"

definition exactFloats :: float64_ops where
  "exactFloats = \<lparr>toInt64 = (\<lambda>v. v), fromInt64 = (\<lambda>i. i), differ = (\<lambda>a b. a \<noteq> b)\<rparr>"

definition orgFields :: call where
  "orgFields = ListOrganizationProjectFields ''acme'' 3
                 \<lparr>PerPage = Some 100, After = None, Before = None, Query = None\<rparr>"

definition orgUpdate :: "int64 \<Rightarrow> string \<Rightarrow> call" where
  "orgUpdate fieldID optionID =
     UpdateOrganizationProjectItem ''acme'' 3 2001
       \<lparr>UpdateProjectItemOptions.Fields =
          [\<lparr>UpdateProjectV2Field.ID = fieldID, Value = AnyString optionID\<rparr>]\<rparr>"

section \<open>Properties\<close>

subsection \<open>Page information\<close>

text \<open>
  C8. For every response, \<open>hasNextPage\<close> is true exactly when the forward cursor is a
  non-empty string and \<open>hasPreviousPage\<close> exactly when the backward cursor is one; the
  cursors are carried unchanged; in the JSON object an empty cursor has no member at all,
  a non-empty one is the member's string; and from two empty cursors the object has the two
  flags, both false, and nothing else.
\<close>

theorem buildPageInfo_cursors:
  "HasNextPage (buildPageInfo rs) = (response.After rs \<noteq> [])
   \<and> HasPreviousPage (buildPageInfo rs) = (response.Before rs \<noteq> [])
   \<and> NextCursor (buildPageInfo rs) = response.After rs
   \<and> PrevCursor (buildPageInfo rs) = response.Before rs
   \<and> map_of (pageInfo_json (buildPageInfo rs)) ''hasNextPage'' = Some (JBool (response.After rs \<noteq> []))
   \<and> map_of (pageInfo_json (buildPageInfo rs)) ''hasPreviousPage'' = Some (JBool (response.Before rs \<noteq> []))
   \<and> map_of (pageInfo_json (buildPageInfo rs)) ''nextCursor''
       = (if response.After rs = [] then None else Some (JString (response.After rs)))
   \<and> map_of (pageInfo_json (buildPageInfo rs)) ''prevCursor''
       = (if response.Before rs = [] then None else Some (JString (response.Before rs)))
   \<and> pageInfo_json (buildPageInfo (rs\<lparr>response.After := [], response.Before := []\<rparr>))
       = [(''hasNextPage'', JBool False), (''hasPreviousPage'', JBool False)]"
  by (simp add: buildPageInfo_def pageInfo_json_def)

subsection \<open>The update payload\<close>




subsection \<open>Deleting an item\<close>

text \<open>
  The cases of \<open>deleteProjectItem\<close>. It sends one delete call, of the owner type's
  endpoint. It returns a text result exactly when the call has no error and the status is
  204, and the text is then the confirmation. With no error and any other status the
  result turns on reading the body: the API status error result with the response and the
  body where the read succeeds, the read's error wrapped, and no result, where it fails.
  With a transport error it returns the API error result.
\<close>

lemma deleteProjectItem_cases:
  fixes client :: "'p client" and log owner ownerType projectNumber itemID
  defines "c \<equiv> (if ownerType = ''org''
                then DeleteOrganizationProjectItem owner projectNumber itemID
                else DeleteUserProjectItem owner projectNumber itemID)"
  defines "r \<equiv> client log c"
  defines "out \<equiv> (deleteProjectItem client log owner ownerType projectNumber itemID
                  :: 'a tool_result outcome \<times> call list)"
  shows "snd out = log @ [c]
    \<and> ((\<exists>t. fst out = Ok (ResultText t))
         = (err r = None \<and> (\<exists>rs. resp r = Some rs \<and> StatusCode rs = StatusNoContent)))
    \<and> (err r = None \<and> (\<exists>rs. resp r = Some rs \<and> StatusCode rs = StatusNoContent)
         \<longrightarrow> fst out = Ok (ResultText (Literal ''project item successfully deleted'')))
    \<and> (\<forall>rs body. err r = None \<and> resp r = Some rs \<and> StatusCode rs \<noteq> StatusNoContent
           \<and> Body rs = Inr body
         \<longrightarrow> fst out = Ok (GitHubAPIStatusErrorResponse ProjectDeleteFailedError rs body))
    \<and> (\<forall>rs e. err r = None \<and> resp r = Some rs \<and> StatusCode rs \<noteq> StatusNoContent
           \<and> Body rs = Inl e
         \<longrightarrow> fst out = Err (Errorf ''failed to read response body: %w'' [OpError e]))
    \<and> (\<forall>e. err r = Some e
         \<longrightarrow> fst out = Ok (GitHubAPIErrorResponse ProjectDeleteFailedError (resp r) e))"
  unfolding out_def r_def c_def deleteProjectItem_def send_def
  by (auto split: option.splits sum.splits)

text \<open>
  C7. At status 200 with no error the deletion is not reported as done, but the body is
  not surfaced either. The client has read and closed the body before it returns, so the
  read of line 869 fails; \<open>deleteProjectItem\<close> then returns that error wrapped, with
  neither the status code nor the body, and no tool result. The one delete call has been
  sent.
\<close>

theorem deleteProjectItem_status_200_body_not_surfaced:
  "(deleteProjectItem (\<lambda>log c. replied closedBody :: unit reply) [] ''octo'' ''org'' 3 77
      :: unit tool_result outcome \<times> call list)
     = (Err (Errorf ''failed to read response body: %w''
               [OpError (Errorf ''http: read on closed response body'' [])]),
        [DeleteOrganizationProjectItem ''octo'' 3 77])
   \<and> StatusCode closedBody = 200
   \<and> err (replied closedBody :: unit reply) = None"
  by (simp add: deleteProjectItem_def send_def replied_def closedBody_def StatusNoContent_def)

subsection \<open>Detecting the owner type\<close>

text \<open>
  C1. \<open>detectOwnerType\<close> probes the user scope first. If that probe has no error and
  status 200 the result is \<open>user\<close> after that one call. If it has an error (a transport
  error included) or another status, the organization scope is probed next: on no error
  and status 200 the result is \<open>org\<close>, after exactly the two calls, user then
  organization; if the second probe fails too, the result is the error that carries the
  owner and the project number, after the same two calls.
\<close>

theorem detectOwnerType_user_then_org:
  fixes client :: "'p client" and log owner projectNumber
  defines "u \<equiv> GetUserProject owner projectNumber"
  defines "g \<equiv> GetOrganizationProject owner projectNumber"
  defines "r1 \<equiv> client log u"
  defines "r2 \<equiv> client (log @ [u]) g"
  defines "userFound \<equiv> err r1 = None \<and> (\<exists>rs. resp r1 = Some rs \<and> StatusCode rs = StatusOK)"
  defines "userMissing \<equiv> (\<exists>e. err r1 = Some e)
                          \<or> (\<exists>rs. resp r1 = Some rs \<and> StatusCode rs \<noteq> StatusOK)"
  defines "orgFound \<equiv> err r2 = None \<and> (\<exists>rs. resp r2 = Some rs \<and> StatusCode rs = StatusOK)"
  defines "orgMissing \<equiv> (\<exists>e. err r2 = Some e)
                          \<or> (\<exists>rs. resp r2 = Some rs \<and> StatusCode rs \<noteq> StatusOK)"
  shows "(userFound \<longrightarrow> detectOwnerType client log owner projectNumber = (Ok ''user'', log @ [u]))
    \<and> (userMissing \<and> orgFound
         \<longrightarrow> detectOwnerType client log owner projectNumber = (Ok ''org'', log @ [u, g]))
    \<and> (userMissing \<and> orgMissing
         \<longrightarrow> detectOwnerType client log owner projectNumber
             = (Err (Errorf
                  ''could not determine owner type for %s with project %d: owner is neither a user nor an org with this project''
                  [OpString owner, OpInt projectNumber]), log @ [u, g]))"
  unfolding userFound_def userMissing_def orgFound_def orgMissing_def r1_def r2_def u_def g_def
    detectOwnerType_def send_def statusOK_def
  by (auto split: option.splits bool.splits)

theorem detectOwnerType_user_then_org_witness:
  "detectOwnerType orgOnly [] ''octo'' 7
     = (Ok ''org'', [GetUserProject ''octo'' 7, GetOrganizationProject ''octo'' 7])
   \<and> detectOwnerType orgOnlyUnreachableFirst [] ''octo'' 7
     = (Ok ''org'', [GetUserProject ''octo'' 7, GetOrganizationProject ''octo'' 7])
   \<and> detectOwnerType (\<lambda>log c. replied (httpResponse 200 []) :: unit reply) [] ''octo'' 7
     = (Ok ''user'', [GetUserProject ''octo'' 7])
   \<and> detectOwnerType (\<lambda>log c. refused 404 :: unit reply) [] ''octo'' 7
     = (Err (Errorf
          ''could not determine owner type for %s with project %d: owner is neither a user nor an org with this project''
          [OpString ''octo'', OpInt 7]),
        [GetUserProject ''octo'' 7, GetOrganizationProject ''octo'' 7])"
  using detectOwnerType_user_then_org [where client = orgOnly and log = "[]" and owner = "''octo''"
             and projectNumber = 7]
        detectOwnerType_user_then_org [where client = orgOnlyUnreachableFirst and log = "[]" and owner = "''octo''"
             and projectNumber = 7]
        detectOwnerType_user_then_org [where client = "\<lambda>log c. replied (httpResponse 200 []) :: unit reply" and log = "[]" and owner = "''octo''"
             and projectNumber = 7]
        detectOwnerType_user_then_org [where client = "\<lambda>log c. refused 404 :: unit reply" and log = "[]" and owner = "''octo''"
             and projectNumber = 7]
  by (simp add: replied_def refused_def httpResponse_def unreachable_def StatusOK_def)

subsection \<open>Listing projects under both owner types\<close>

text \<open>
  C6. When both list calls have no error and status 200, the result is the text of the
  response map whose projects are the user-scope projects, each with owner type \<open>user\<close>,
  followed by the organization-scope projects, each with owner type \<open>org\<close>: as many
  projects as the two calls returned together, every one converted from the project of its
  scope and carrying that scope's tag. The page information is that of the organization
  response, and the two calls are sent in the order user, organization.
\<close>

theorem listProjectsFromBothOwnerTypes_union:
  fixes client :: "'p client" and conv :: "'p \<Rightarrow> 'd MinimalProject" and log owner opts
  defines "cu \<equiv> ListUserProjects owner opts"
  defines "cg \<equiv> ListOrganizationProjects owner opts"
  defines "u \<equiv> client log cu"
  defines "g \<equiv> client (log @ [cu]) cg"
  shows "\<forall>ru rg. err u = None \<and> resp u = Some ru \<and> StatusCode ru = StatusOK
            \<and> err g = None \<and> resp g = Some rg \<and> StatusCode rg = StatusOK
     \<longrightarrow> (\<exists>ps. listProjectsFromBothOwnerTypes conv client log owner opts
                = (Ok (ResultText (Marshalled
                     \<lparr>projects = ps, note' = bothOwnerTypesNote,
                      pageInfo = Some (buildPageInfo rg)\<rparr>)), log @ [cu, cg])
            \<and> ps = map (\<lambda>project. (conv project)\<lparr>OwnerType := ''user''\<rparr>) (gotProjects u)
                   @ map (\<lambda>project. (conv project)\<lparr>OwnerType := ''org''\<rparr>) (gotProjects g)
            \<and> length ps = length (gotProjects u) + length (gotProjects g)
            \<and> map OwnerType ps = replicate (length (gotProjects u)) ''user''
                                   @ replicate (length (gotProjects g)) ''org''
            \<and> map Details ps = map (\<lambda>project. Details (conv project))
                                   (gotProjects u @ gotProjects g))"
  unfolding u_def g_def cu_def cg_def listProjectsFromBothOwnerTypes_def send_def statusOK_def
    notListed_def json_Marshal_def
  by (auto simp: map_replicate_const comp_def)

theorem listProjectsFromBothOwnerTypes_union_witness:
  "listProjectsFromBothOwnerTypes titled bothScopes [] ''octo'' anyPage
     = (Ok (ResultText (Marshalled
          \<lparr>projects = [\<lparr>Details = ''alpha'', OwnerType = ''user''\<rparr>,
                       \<lparr>Details = ''beta'', OwnerType = ''user''\<rparr>,
                       \<lparr>Details = ''gamma'', OwnerType = ''org''\<rparr>],
           note' = bothOwnerTypesNote,
           pageInfo = Some \<lparr>HasNextPage = True, HasPreviousPage = False,
                             NextCursor = ''o-next'', PrevCursor = []\<rparr>\<rparr>)),
        [ListUserProjects ''octo'' anyPage, ListOrganizationProjects ''octo'' anyPage])"
  using listProjectsFromBothOwnerTypes_union
          [where client = bothScopes and conv = titled and log = "[]" and owner = "''octo''"
             and opts = anyPage]
  by (simp add: listing_def httpResponse_def StatusOK_def titled_def buildPageInfo_def)



subsection \<open>Resolving a single-select option by name\<close>

lemma scanOptions_skip:
  "list_all (\<lambda>opt. case opt of None \<Rightarrow> True
               | Some p \<Rightarrow> ProjectV2FieldOption.ID p = None \<or> optionNameOf p \<noteq> optionName) pre
   \<Longrightarrow> scanOptions optionName (pre @ rest) = scanOptions optionName rest"
  by (induction pre) (auto split: option.splits)

lemma scanOptions_none:
  "list_all (\<lambda>opt. case opt of None \<Rightarrow> True
               | Some p \<Rightarrow> ProjectV2FieldOption.ID p = None \<or> optionNameOf p \<noteq> optionName) opts
   \<Longrightarrow> scanOptions optionName opts = None"
  using scanOptions_skip[of optionName opts "[]"] by simp

lemma scanFields_skip:
  "list_all (\<lambda>f. fieldNameOf f \<noteq> fieldName \<or> ProjectV2Field.ID f = None) pre
   \<Longrightarrow> scanFields fieldName optionName (pre @ rest) = scanFields fieldName optionName rest"
  by (induction pre) (auto split: option.splits)

text \<open>
  C4. \<open>resolveSingleSelectOptionByName\<close> sends one call, listing the fields with page
  size 100, and returns the call's error if it has one. Otherwise: if no field has the
  name (or every field of that name lacks an ID) it fails with the field-not-found error
  that carries the field name. The first field that has the name and an ID decides: the
  first of its options that has the option name and an ID gives the pair of that option's
  ID and the field's ID; if it has no such option, the failure is the option-not-found
  error that carries the option name and the field name. Nil options and options or
  fields without an ID are passed over.
\<close>

theorem resolveSingleSelectOptionByName_first_match:
  fixes client :: "'p client" and log owner ownerType projectNumber fieldName optionName
  defines "page \<equiv> \<lparr>PerPage = Some 100, After = None, Before = None, Query = None\<rparr>"
  defines "c \<equiv> (if ownerType = ''org''
                then ListOrganizationProjectFields owner projectNumber page
                else ListUserProjectFields owner projectNumber page)"
  defines "r \<equiv> client log c"
  defines "out \<equiv> resolveSingleSelectOptionByName client log owner ownerType projectNumber
                    fieldName optionName"
  defines "passedOver \<equiv> list_all (\<lambda>f. fieldNameOf f \<noteq> fieldName \<or> ProjectV2Field.ID f = None)"
  defines "unoffered \<equiv> list_all (\<lambda>opt. case opt of None \<Rightarrow> True
                          | Some p \<Rightarrow> ProjectV2FieldOption.ID p = None
                                     \<or> optionNameOf p \<noteq> optionName)"
  shows "snd out = log @ [c]
    \<and> (\<forall>e. err r = Some e \<longrightarrow> fst out = Err e)
    \<and> (\<forall>rs. err r = None \<and> resp r = Some rs
         \<longrightarrow> (list_all (\<lambda>f. fieldNameOf f \<noteq> fieldName) (gotFields r)
                \<longrightarrow> fst out = Err (Errorf ''field %q not found in project'' [OpString fieldName]))
           \<and> (passedOver (gotFields r)
                \<longrightarrow> fst out = Err (Errorf ''field %q not found in project'' [OpString fieldName]))
           \<and> (\<forall>pre f post fieldID.
                  gotFields r = pre @ f # post \<and> passedOver pre
                  \<and> fieldNameOf f = fieldName \<and> ProjectV2Field.ID f = Some fieldID
                \<longrightarrow> (\<forall>before p after optID.
                         Options f = before @ Some p # after \<and> unoffered before
                         \<and> optionNameOf p = optionName \<and> ProjectV2FieldOption.ID p = Some optID
                       \<longrightarrow> fst out = Ok (optID, fieldID))
                  \<and> (unoffered (Options f)
                       \<longrightarrow> fst out = Err (Errorf ''option %q not found in field %q''
                                           [OpString optionName, OpString fieldName]))))"
proof -
  have calls: "snd out = log @ [c]"
    unfolding out_def c_def page_def resolveSingleSelectOptionByName_def send_def fieldsPage_def
    by (simp split: option.splits)
  have failed: "fst out = Err e" if "err r = Some e" for e
    using that
    unfolding out_def r_def c_def page_def resolveSingleSelectOptionByName_def send_def
      fieldsPage_def
    by simp
  have listed: "fst out = scanFields fieldName optionName (gotFields r)"
    if "err r = None" "resp r = Some rs" for rs
    using that
    unfolding out_def r_def c_def page_def resolveSingleSelectOptionByName_def send_def
      fieldsPage_def
    by simp
  have none: "scanFields fieldName optionName fs
                = Err (Errorf ''field %q not found in project'' [OpString fieldName])"
    if "passedOver fs" for fs
    using that scanFields_skip[of fieldName fs optionName "[]"]
    unfolding passedOver_def by simp
  have unnamed: "passedOver fs" if "list_all (\<lambda>f. fieldNameOf f \<noteq> fieldName) fs" for fs
    using that unfolding passedOver_def by (induction fs) auto
  have hit: "scanFields fieldName optionName (pre @ f # post) = Ok (optID, fieldID)"
    if "passedOver pre" "fieldNameOf f = fieldName" "ProjectV2Field.ID f = Some fieldID"
       "Options f = before @ Some p # after" "unoffered before"
       "optionNameOf p = optionName" "ProjectV2FieldOption.ID p = Some optID"
    for pre f post fieldID before p after optID
    using that scanFields_skip[of fieldName pre optionName "f # post"]
      scanOptions_skip[of optionName before "Some p # after"]
    unfolding passedOver_def unoffered_def by simp
  have miss: "scanFields fieldName optionName (pre @ f # post)
                = Err (Errorf ''option %q not found in field %q''
                         [OpString optionName, OpString fieldName])"
    if "passedOver pre" "fieldNameOf f = fieldName" "ProjectV2Field.ID f = Some fieldID"
       "unoffered (Options f)"
    for pre f post fieldID
    using that scanFields_skip[of fieldName pre optionName "f # post"]
      scanOptions_none[of optionName "Options f"]
    unfolding passedOver_def unoffered_def by simp
  show ?thesis
  proof (intro conjI allI impI)
    show "snd out = log @ [c]" by (rule calls)
  next
    fix e assume "err r = Some e"
    then show "fst out = Err e" by (rule failed)
  next
    fix rs assume a: "err r = None \<and> resp r = Some rs"
    assume "list_all (\<lambda>f. fieldNameOf f \<noteq> fieldName) (gotFields r)"
    then show "fst out = Err (Errorf ''field %q not found in project'' [OpString fieldName])"
      using a listed none unnamed by simp
  next
    fix rs assume a: "err r = None \<and> resp r = Some rs"
    assume "passedOver (gotFields r)"
    then show "fst out = Err (Errorf ''field %q not found in project'' [OpString fieldName])"
      using a listed none by simp
  next
    fix rs pre f post fieldID before p after optID
    assume a: "err r = None \<and> resp r = Some rs"
    assume b: "gotFields r = pre @ f # post \<and> passedOver pre
                 \<and> fieldNameOf f = fieldName \<and> ProjectV2Field.ID f = Some fieldID"
    assume d: "Options f = before @ Some p # after \<and> unoffered before
                 \<and> optionNameOf p = optionName \<and> ProjectV2FieldOption.ID p = Some optID"
    have "fst out = scanFields fieldName optionName (pre @ f # post)"
      using a b listed by simp
    also have "\<dots> = Ok (optID, fieldID)"
      using b d hit by blast
    finally show "fst out = Ok (optID, fieldID)" .
  next
    fix rs pre f post fieldID
    assume a: "err r = None \<and> resp r = Some rs"
    assume b: "gotFields r = pre @ f # post \<and> passedOver pre
                 \<and> fieldNameOf f = fieldName \<and> ProjectV2Field.ID f = Some fieldID"
    assume d: "unoffered (Options f)"
    have "fst out = scanFields fieldName optionName (pre @ f # post)"
      using a b listed by simp
    also have "\<dots> = Err (Errorf ''option %q not found in field %q''
                             [OpString optionName, OpString fieldName])"
      using b d miss by blast
    finally show "fst out = Err (Errorf ''option %q not found in field %q''
                                   [OpString optionName, OpString fieldName])" .
  qed
qed

theorem resolveSingleSelectOptionByName_first_match_witness:
  "resolveSingleSelectOptionByName priorityBoard [] ''octo'' ''org'' 7 ''Priority'' ''High''
     = (Ok (''opt1'', 42), [ListOrganizationProjectFields ''octo'' 7
                              \<lparr>PerPage = Some 100, After = None, Before = None, Query = None\<rparr>])
   \<and> fst (resolveSingleSelectOptionByName priorityBoard [] ''octo'' ''org'' 7 ''Priority'' ''Medium'')
     = Err (Errorf ''option %q not found in field %q'' [OpString ''Medium'', OpString ''Priority''])
   \<and> fst (resolveSingleSelectOptionByName priorityBoard [] ''octo'' ''org'' 7 ''Status'' ''High'')
     = Err (Errorf ''field %q not found in project'' [OpString ''Status''])"
  using resolveSingleSelectOptionByName_first_match
          [where client = priorityBoard and log = "[]" and owner = "''octo''"
             and ownerType = "''org''" and projectNumber = 7 and fieldName = "''Priority''"
             and optionName = "''High''"]
        resolveSingleSelectOptionByName_first_match
          [where client = priorityBoard and log = "[]" and owner = "''octo''"
             and ownerType = "''org''" and projectNumber = 7 and fieldName = "''Priority''"
             and optionName = "''Medium''"]
        resolveSingleSelectOptionByName_first_match
          [where client = priorityBoard and log = "[]" and owner = "''octo''"
             and ownerType = "''org''" and projectNumber = 7 and fieldName = "''Status''"
             and optionName = "''High''"]
  by (simp add: resolveSingleSelectOptionByName_def send_def fieldsPage_def replied_def
        httpResponse_def priorityField_def selectOption_def fieldNameOf_def optionNameOf_def)

subsection \<open>Finding the item of an issue\<close>



lemma scanItems_find:
  "scanItems repoOwner repoName issueNumber its
     = (case find (matchesIssue repoOwner repoName issueNumber) its of
          None \<Rightarrow> None
        | Some item \<Rightarrow> ProjectV2Item.ID item)"
  by (induction its) (auto simp: matchesIssue_def split: option.splits)

lemma scanItems_replicate:
  "\<not> matchesIssue repoOwner repoName issueNumber item
   \<Longrightarrow> scanItems repoOwner repoName issueNumber (replicate k item @ rest)
       = scanItems repoOwner repoName issueNumber rest"
  by (induction k) (auto simp: scanItems_find)


lemma scanPages_found:
  assumes "page < 5"
    and "err (client log (listItems owner ownerType projectNumber opts)) = None"
    and "resp (client log (listItems owner ownerType projectNumber opts)) = Some rs"
    and "scanItems repoOwner repoName issueNumber
           (gotItems (client log (listItems owner ownerType projectNumber opts))) = Some i"
  shows "scanPages client owner ownerType projectNumber repoOwner repoName issueNumber page opts log
           = (Ok i, log @ [listItems owner ownerType projectNumber opts])"
  using assms by (subst scanPages.simps) (simp add: send_def)











text \<open>
  C10. An item that has an ID and an issue of the number sought passes the loop's tests
  whenever the issue has no repository, or a repository with neither a name nor an owner
  login: whatever repository is sought, the scan returns its ID, and so does
  \<open>findProjectItemIDByIssue\<close> when it is the first item of the first page. The repository
  is compared only when present: an item whose repository name is present and differs is
  skipped.
\<close>

theorem findProjectItemIDByIssue_number_alone:
  fixes client :: "'p client"
    and log owner ownerType projectNumber repoOwner repoName issueNumber
  defines "first \<equiv> client log (listItems owner ownerType projectNumber
                     \<lparr>PerPage = Some 50, After = None, Before = None, Query = None,
                      ListProjectItemsOptions.Fields = []\<rparr>)"
  defines "bare \<equiv> \<lambda>issue. case Repository issue of
                      None \<Rightarrow> True
                    | Some repo \<Rightarrow> Repository.Name repo = None
                        \<and> (case Owner repo of None \<Rightarrow> True | Some u \<Rightarrow> Login u = None)"
  shows "(\<forall>item rest i content issue.
            ProjectV2Item.ID item = Some i \<and> Content item = Some content
            \<and> Issue content = Some issue \<and> Number issue = Some issueNumber \<and> bare issue
          \<longrightarrow> matchesIssue repoOwner repoName issueNumber item
            \<and> scanItems repoOwner repoName issueNumber (item # rest) = Some i)
    \<and> (\<forall>item rest rs i content issue.
            err first = None \<and> resp first = Some rs \<and> gotItems first = item # rest
            \<and> ProjectV2Item.ID item = Some i \<and> Content item = Some content
            \<and> Issue content = Some issue \<and> Number issue = Some issueNumber \<and> bare issue
          \<longrightarrow> fst (findProjectItemIDByIssue client log owner ownerType projectNumber
                      repoOwner repoName issueNumber) = Ok i)
    \<and> (\<forall>item rest i content issue repo name.
            ProjectV2Item.ID item = Some i \<and> Content item = Some content
            \<and> Issue content = Some issue \<and> Number issue = Some issueNumber
            \<and> Repository issue = Some repo \<and> Repository.Name repo = Some name
            \<and> name \<noteq> repoName
          \<longrightarrow> \<not> matchesIssue repoOwner repoName issueNumber item
            \<and> scanItems repoOwner repoName issueNumber (item # rest)
                = scanItems repoOwner repoName issueNumber rest)"
proof -
  have accept: "matchesIssue repoOwner repoName issueNumber item
                  \<and> scanItems repoOwner repoName issueNumber (item # rest) = Some i"
    if "ProjectV2Item.ID item = Some i" "Content item = Some content"
       "Issue content = Some issue" "Number issue = Some issueNumber" "bare issue"
    for item rest i content issue
    using that
    by (auto simp: matchesIssue_def otherRepository_def bare_def split: option.splits)
  have found: "fst (findProjectItemIDByIssue client log owner ownerType projectNumber
                      repoOwner repoName issueNumber) = Ok i"
    if "err first = None" "resp first = Some rs" "gotItems first = item # rest"
       "ProjectV2Item.ID item = Some i" "Content item = Some content"
       "Issue content = Some issue" "Number issue = Some issueNumber" "bare issue"
    for item rest rs i content issue
    using that accept[OF that(4-8), of rest]
      scanPages_found[where client = client and log = log and opts = itemsPage and rs = rs
                        and page = 0 and i = i and owner = owner and ownerType = ownerType
                        and projectNumber = projectNumber and repoOwner = repoOwner
                        and repoName = repoName and issueNumber = issueNumber]
    by (simp add: findProjectItemIDByIssue_def first_def itemsPage_def)
  have reject: "\<not> matchesIssue repoOwner repoName issueNumber item
                  \<and> scanItems repoOwner repoName issueNumber (item # rest)
                      = scanItems repoOwner repoName issueNumber rest"
    if "ProjectV2Item.ID item = Some i" "Content item = Some content"
       "Issue content = Some issue" "Number issue = Some issueNumber"
       "Repository issue = Some repo" "Repository.Name repo = Some name" "name \<noteq> repoName"
    for item rest i content issue repo name
    using that by (auto simp: matchesIssue_def otherRepository_def)
  show ?thesis
    using accept found reject by blast
qed

theorem findProjectItemIDByIssue_number_alone_witness:
  "findProjectItemIDByIssue unlabelled [] ''acme'' ''org'' 3 ''octo'' ''repo'' 7
     = (Ok 3000, [orgItems None])
   \<and> fst (findProjectItemIDByIssue unlabelled [] ''acme'' ''org'' 3 ''hubot'' ''elsewhere'' 7)
     = Ok 3000"
proof -
  have a: "fst (findProjectItemIDByIssue unlabelled [] ''acme'' ''org'' 3 ''octo'' ''repo'' 7)
             = Ok 3000"
    using findProjectItemIDByIssue_number_alone
            [where client = unlabelled and log = "[]" and owner = "''acme''"
               and ownerType = "''org''" and projectNumber = 3 and repoOwner = "''octo''"
               and repoName = "''repo''" and issueNumber = 7,
             THEN conjunct2, THEN conjunct1, rule_format,
             where item = "issueItem 3000 7 None"
               and rest = "[issueItem 3001 7 (Some (''octo'', ''repo''))]"
               and rs = "httpResponse 200 []" and i = 3000
               and content = "\<lparr>Issue = Some \<lparr>Number = Some 7, Repository = None\<rparr>\<rparr>"
               and issue = "\<lparr>Number = Some 7, Repository = None\<rparr>"]
    by (simp add: listItems_def itemsReply_def replied_def httpResponse_def issueItem_def)
  have b: "fst (findProjectItemIDByIssue unlabelled [] ''acme'' ''org'' 3 ''hubot'' ''elsewhere'' 7)
             = Ok 3000"
    using findProjectItemIDByIssue_number_alone
            [where client = unlabelled and log = "[]" and owner = "''acme''"
               and ownerType = "''org''" and projectNumber = 3 and repoOwner = "''hubot''"
               and repoName = "''elsewhere''" and issueNumber = 7,
             THEN conjunct2, THEN conjunct1, rule_format,
             where item = "issueItem 3000 7 None"
               and rest = "[issueItem 3001 7 (Some (''octo'', ''repo''))]"
               and rs = "httpResponse 200 []" and i = 3000
               and content = "\<lparr>Issue = Some \<lparr>Number = Some 7, Repository = None\<rparr>\<rparr>"
               and issue = "\<lparr>Number = Some 7, Repository = None\<rparr>"]
    by (simp add: listItems_def itemsReply_def replied_def httpResponse_def issueItem_def)
  have c: "snd (findProjectItemIDByIssue unlabelled [] ''acme'' ''org'' 3 ''octo'' ''repo'' 7)
             = [orgItems None]"
    by (simp add: findProjectItemIDByIssue_def scanPages.simps send_def listItems_def
          itemsPage_def orgItems_def itemsReply_def replied_def httpResponse_def issueItem_def
          otherRepository_def)
  show ?thesis using a b c by (simp add: prod_eq_iff)
qed

subsection \<open>Adding an item\<close>

text \<open>
  What \<open>addProjectItem\<close> returns is the encoding of its result map, or an error result
  whose message starts with a letter of its format: the results on which the workflow's
  test of the first byte is exact. It never panics.
\<close>

lemma addProjectItem_result_texts:
  assumes "fst (addProjectItem gqlClient log owner ownerType projectNumber itemOwner itemRepo
                  itemNumber itemType) = Ok res"
  shows "(\<exists>v. res = ResultText (Marshalled v))
         \<or> (\<exists>c cs ops. res = ResultError (Sprintf (c # cs) ops)
                          \<and> (c = CHR ''f'' \<or> c = CHR ''i''))"
  using assms
  by (auto simp: addProjectItem_def resolveIssueNodeID_def resolvePullRequestNodeID_def send_def
        json_Marshal_def ProjectAddFailedError_def
        split: if_splits option.splits prod.splits outcome.splits)

lemma addProjectItem_no_panic:
  "fst (addProjectItem gqlClient log owner ownerType projectNumber itemOwner itemRepo
          itemNumber itemType) \<noteq> Panic"
  by (auto simp: addProjectItem_def resolveIssueNodeID_def resolvePullRequestNodeID_def send_def
        json_Marshal_def
        split: if_splits option.splits prod.splits outcome.splits)

subsection \<open>Setting Priority and Size\<close>

lemma updateProjectItem_option_log:
  "snd (updateProjectItem fl client log owner ownerType projectNumber itemID
          (Some [''id'' \<mapsto> AnyInt64 fieldID, ''value'' \<mapsto> AnyString optionID]))
     = log @ [(if ownerType = ''org''
               then UpdateOrganizationProjectItem owner projectNumber itemID
               else UpdateUserProjectItem owner projectNumber itemID)
                \<lparr>UpdateProjectItemOptions.Fields =
                   [\<lparr>UpdateProjectV2Field.ID = fieldID, Value = AnyString optionID\<rparr>]\<rparr>]"
  by (simp add: updateProjectItem_def buildUpdateProjectItem_def send_def json_Marshal_def
           split: option.splits sum.splits)

lemma resolveSingleSelectOptionByName_log:
  "snd (resolveSingleSelectOptionByName client log owner ownerType projectNumber fieldName
          optionName)
     = log @ [if ownerType = ''org''
              then ListOrganizationProjectFields owner projectNumber fieldsPage
              else ListUserProjectFields owner projectNumber fieldsPage]"
  by (simp add: resolveSingleSelectOptionByName_def send_def split: option.splits)

text \<open>
  C3 as stated fails: the failure of a later step says nothing of the earlier ones. On a
  board where the Priority update is applied and the Size option does not exist, the
  error is the same value as on the run that asks for no Priority at all; it names the
  step and the option, and no effect.
\<close>

theorem setPriorityAndSize_error_same_with_and_without_applied_update:
  "setPriorityAndSize exactFloats taggingBoard [] ''acme'' ''org'' 3 2001 ''High'' ''XL''
     = (Err (Errorf ''Size: %w''
               [OpError (Errorf ''option %q not found in field %q''
                           [OpString ''XL'', OpString ''Size''])]),
        [orgFields, orgUpdate 42 ''opt1'', orgFields])
   \<and> setPriorityAndSize exactFloats taggingBoard [] ''acme'' ''org'' 3 2001 [] ''XL''
     = (Err (Errorf ''Size: %w''
               [OpError (Errorf ''option %q not found in field %q''
                           [OpString ''XL'', OpString ''Size''])]),
        [orgFields])"
  by (simp add: setPriorityAndSize_def resolveSingleSelectOptionByName_def updateProjectItem_def
        buildUpdateProjectItem_def send_def json_Marshal_def fieldsPage_def orgFields_def
        orgUpdate_def replied_def httpResponse_def priorityField_def sizeField_def
        selectOption_def fieldNameOf_def optionNameOf_def StatusOK_def)

text \<open>
  An update that the platform refuses is not a Go error of \<open>updateProjectItem\<close>: the
  refusal is in the result, which \<open>setPriorityAndSize\<close> drops. Both updates are sent
  and both are reported as made.
\<close>

lemma setPriorityAndSize_refused_updates_reported:
  "setPriorityAndSize exactFloats refusingUpdates [] ''acme'' ''org'' 3 2001 ''High'' ''Large''
     = (Ok [Sprintf ''Priority=%s'' [OpString ''High''], Sprintf ''Size=%s'' [OpString ''Large'']],
        [orgFields, orgUpdate 42 ''opt1'', orgFields, orgUpdate 43 ''s2''])"
  by (simp add: setPriorityAndSize_def resolveSingleSelectOptionByName_def updateProjectItem_def
        buildUpdateProjectItem_def send_def json_Marshal_def fieldsPage_def orgFields_def
        orgUpdate_def replied_def refused_def httpResponse_def priorityField_def sizeField_def
        selectOption_def fieldNameOf_def optionNameOf_def StatusOK_def)


text \<open>
  C3 (amended). Priority is handled before Size, each only when its argument is not empty;
  with both empty nothing is sent. If resolving the Priority option fails, the result is
  that error wrapped with the prefix \<open>Priority\<close>, after the one list call: no update is
  sent and Size is not attempted. If the Priority update returns a Go error, the result is
  that error wrapped with \<open>set Priority\<close>, and Size is not attempted. If Priority went
  through and resolving the Size option fails, the result is that error wrapped with
  \<open>Size\<close>, and the log ends with the failed list call: the Priority update stays sent and
  nothing undoes it. The same holds for a Go error of the Size update. The error names the
  step alone. \<open>assignIssueToOrgProjectWithFields\<close> returns the error of
  \<open>setPriorityAndSize\<close> unchanged.
\<close>

theorem setPriorityAndSize_aborts_without_rollback:
  fixes client :: "'p client"
    and fl log owner ownerType projectNumber itemID priority size'
  defines "fieldsCall \<equiv> (if ownerType = ''org''
                         then ListOrganizationProjectFields owner projectNumber
                                \<lparr>PerPage = Some 100, After = None, Before = None, Query = None\<rparr>
                         else ListUserProjectFields owner projectNumber
                                \<lparr>PerPage = Some 100, After = None, Before = None, Query = None\<rparr>)"
  defines "updateCall \<equiv> \<lambda>fieldID optionID.
                          (if ownerType = ''org''
                           then UpdateOrganizationProjectItem owner projectNumber itemID
                           else UpdateUserProjectItem owner projectNumber itemID)
                            \<lparr>UpdateProjectItemOptions.Fields =
                               [\<lparr>UpdateProjectV2Field.ID = fieldID, Value = AnyString optionID\<rparr>]\<rparr>"
  defines "resolve \<equiv> \<lambda>lg. resolveSingleSelectOptionByName client lg owner ownerType projectNumber"
  defines "update \<equiv> \<lambda>lg fieldID optionID.
                      updateProjectItem fl client lg owner ownerType projectNumber itemID
                        (Some [''id'' \<mapsto> AnyInt64 fieldID, ''value'' \<mapsto> AnyString optionID])"
  defines "out \<equiv> setPriorityAndSize fl client log owner ownerType projectNumber itemID
                    priority size'"
  shows "(priority = [] \<and> size' = [] \<longrightarrow> out = (Ok [], log))
    \<and> (\<forall>e. priority \<noteq> [] \<and> fst (resolve log ''Priority'' priority) = Err e
         \<longrightarrow> out = (Err (Errorf ''Priority: %w'' [OpError e]), log @ [fieldsCall]))
    \<and> (\<forall>optionID fieldID e.
          priority \<noteq> [] \<and> fst (resolve log ''Priority'' priority) = Ok (optionID, fieldID)
          \<and> fst (update (log @ [fieldsCall]) fieldID optionID) = Err e
         \<longrightarrow> out = (Err (Errorf ''set Priority: %w'' [OpError e]),
                    log @ [fieldsCall, updateCall fieldID optionID]))
    \<and> (\<forall>optionID fieldID res e.
          priority \<noteq> [] \<and> fst (resolve log ''Priority'' priority) = Ok (optionID, fieldID)
          \<and> fst (update (log @ [fieldsCall]) fieldID optionID) = Ok res
          \<and> size' \<noteq> []
          \<and> fst (resolve (log @ [fieldsCall, updateCall fieldID optionID]) ''Size'' size') = Err e
         \<longrightarrow> out = (Err (Errorf ''Size: %w'' [OpError e]),
                    log @ [fieldsCall, updateCall fieldID optionID, fieldsCall]))
    \<and> (\<forall>optionID fieldID res sizeID sizeField e.
          priority \<noteq> [] \<and> fst (resolve log ''Priority'' priority) = Ok (optionID, fieldID)
          \<and> fst (update (log @ [fieldsCall]) fieldID optionID) = Ok res
          \<and> size' \<noteq> []
          \<and> fst (resolve (log @ [fieldsCall, updateCall fieldID optionID]) ''Size'' size')
              = Ok (sizeID, sizeField)
          \<and> fst (update (log @ [fieldsCall, updateCall fieldID optionID, fieldsCall])
                   sizeField sizeID) = Err e
         \<longrightarrow> out = (Err (Errorf ''set Size: %w'' [OpError e]),
                    log @ [fieldsCall, updateCall fieldID optionID, fieldsCall,
                           updateCall sizeField sizeID]))
    \<and> (\<forall>e. priority = [] \<and> size' \<noteq> [] \<and> fst (resolve log ''Size'' size') = Err e
         \<longrightarrow> out = (Err (Errorf ''Size: %w'' [OpError e]), log @ [fieldsCall]))
    \<and> (\<forall>gqlClient start org itemOwner itemRepo issueNumber addResult log1 e.
          addProjectItem gqlClient start org ''org'' projectNumber itemOwner itemRepo issueNumber
            ''issue'' = (Ok addResult, log1)
          \<and> rejectedText addResult = None
          \<and> findProjectItemIDByIssue client log1 org ''org'' projectNumber itemOwner itemRepo
                issueNumber = (Ok itemID, log)
          \<and> owner = org \<and> ownerType = ''org'' \<and> fst out = Err e
         \<longrightarrow> assignIssueToOrgProjectWithFields fl client gqlClient start org projectNumber
               itemOwner itemRepo issueNumber priority size' = (Err e, snd out))"
proof -
  have rlog: "snd (resolve lg name opt) = lg @ [fieldsCall]" for lg name opt
    by (simp add: resolve_def fieldsCall_def resolveSingleSelectOptionByName_log fieldsPage_def)
  have ulog: "snd (update lg fieldID optionID) = lg @ [updateCall fieldID optionID]"
    for lg fieldID optionID
    by (simp add: update_def updateCall_def updateProjectItem_option_log)
  have r: "resolve lg name opt = (fst (resolve lg name opt), lg @ [fieldsCall])" for lg name opt
    using rlog[of lg name opt] by (simp add: prod_eq_iff)
  have u: "update lg fieldID optionID
             = (fst (update lg fieldID optionID), lg @ [updateCall fieldID optionID])"
    for lg fieldID optionID
    using ulog[of lg fieldID optionID] by (simp add: prod_eq_iff)
  have out: "out =
     (case (if priority \<noteq> []
            then (case resolve log ''Priority'' priority of
                    (Panic, log1) \<Rightarrow> (Panic, log1)
                  | (Err e, log1) \<Rightarrow> (Err (Errorf ''Priority: %w'' [OpError e]), log1)
                  | (Ok (optionID, fieldID), log1) \<Rightarrow>
                      (case update log1 fieldID optionID of
                         (Panic, log2) \<Rightarrow> (Panic, log2)
                       | (Err e, log2) \<Rightarrow> (Err (Errorf ''set Priority: %w'' [OpError e]), log2)
                       | (Ok res, log2) \<Rightarrow>
                           (Ok [Sprintf ''Priority=%s'' [OpString priority]], log2)))
            else (Ok [], log)) of
        (Panic, log2) \<Rightarrow> (Panic, log2)
      | (Err e, log2) \<Rightarrow> (Err e, log2)
      | (Ok ups, log2) \<Rightarrow>
          (if size' \<noteq> []
           then (case resolve log2 ''Size'' size' of
                   (Panic, log3) \<Rightarrow> (Panic, log3)
                 | (Err e, log3) \<Rightarrow> (Err (Errorf ''Size: %w'' [OpError e]), log3)
                 | (Ok (optionID, fieldID), log3) \<Rightarrow>
                     (case update log3 fieldID optionID of
                        (Panic, log4) \<Rightarrow> (Panic, log4)
                      | (Err e, log4) \<Rightarrow> (Err (Errorf ''set Size: %w'' [OpError e]), log4)
                      | (Ok res, log4) \<Rightarrow>
                          (Ok (ups @ [Sprintf ''Size=%s'' [OpString size']]), log4)))
           else (Ok ups, log2)))"
    unfolding out_def resolve_def update_def setPriorityAndSize_def ..
  have c0: "out = (Ok [], log)" if "priority = []" "size' = []"
    using that by (simp add: out)
  have c1: "out = (Err (Errorf ''Priority: %w'' [OpError e]), log @ [fieldsCall])"
    if "priority \<noteq> []" "fst (resolve log ''Priority'' priority) = Err e" for e
    using that by (subst out, subst r) simp
  have c2: "out = (Err (Errorf ''set Priority: %w'' [OpError e]),
                    log @ [fieldsCall, updateCall fieldID optionID])"
    if "priority \<noteq> []" "fst (resolve log ''Priority'' priority) = Ok (optionID, fieldID)"
       "fst (update (log @ [fieldsCall]) fieldID optionID) = Err e" for optionID fieldID e
    using that by (subst out, subst r, simp, subst u, simp)
  have c3: "out = (Err (Errorf ''Size: %w'' [OpError e]),
                    log @ [fieldsCall, updateCall fieldID optionID, fieldsCall])"
    if "priority \<noteq> []" "fst (resolve log ''Priority'' priority) = Ok (optionID, fieldID)"
       "fst (update (log @ [fieldsCall]) fieldID optionID) = Ok res" "size' \<noteq> []"
       "fst (resolve (log @ [fieldsCall, updateCall fieldID optionID]) ''Size'' size') = Err e"
    for optionID fieldID res e
    using that by (subst out, subst r, simp, subst u, simp, subst r, simp)
  have c4: "out = (Err (Errorf ''set Size: %w'' [OpError e]),
                    log @ [fieldsCall, updateCall fieldID optionID, fieldsCall,
                           updateCall sizeField sizeID])"
    if "priority \<noteq> []" "fst (resolve log ''Priority'' priority) = Ok (optionID, fieldID)"
       "fst (update (log @ [fieldsCall]) fieldID optionID) = Ok res" "size' \<noteq> []"
       "fst (resolve (log @ [fieldsCall, updateCall fieldID optionID]) ''Size'' size')
          = Ok (sizeID, sizeField)"
       "fst (update (log @ [fieldsCall, updateCall fieldID optionID, fieldsCall])
              sizeField sizeID) = Err e"
    for optionID fieldID res sizeID sizeField e
    using that by (subst out, subst r, simp, subst u, simp, subst r, simp, subst u, simp)
  have c5: "out = (Err (Errorf ''Size: %w'' [OpError e]), log @ [fieldsCall])"
    if "priority = []" "size' \<noteq> []" "fst (resolve log ''Size'' size') = Err e" for e
    using that by (subst out, simp, subst r, simp)
  have c6: "assignIssueToOrgProjectWithFields fl client gqlClient start org projectNumber
               itemOwner itemRepo issueNumber priority size' = (Err e, snd out)"
    if "addProjectItem gqlClient start org ''org'' projectNumber itemOwner itemRepo issueNumber
          ''issue'' = (Ok addResult, log1)"
       "rejectedText addResult = None"
       "findProjectItemIDByIssue client log1 org ''org'' projectNumber itemOwner itemRepo
          issueNumber = (Ok itemID, log)"
       "owner = org" "ownerType = ''org''" "fst out = Err e"
    for gqlClient start org itemOwner itemRepo issueNumber addResult log1 e
  proof -
    have "priority \<noteq> [] \<or> size' \<noteq> []"
      using c0 that(6) by auto
    moreover have "setPriorityAndSize fl client log org ''org'' projectNumber itemID priority size'
                     = (Err e, snd out)"
      using that(4-6) by (simp add: out_def prod_eq_iff)
    ultimately show ?thesis
      using that(1-3) by (simp add: assignIssueToOrgProjectWithFields_def)
  qed
  show ?thesis
    using c0 c1 c2 c3 c4 c5 c6 by blast
qed

theorem setPriorityAndSize_aborts_without_rollback_witness:
  "setPriorityAndSize exactFloats taggingBoard [orgItems None] ''acme'' ''org'' 3 2001
       ''Urgent'' ''Large''
     = (Err (Errorf ''Priority: %w''
               [OpError (Errorf ''option %q not found in field %q''
                           [OpString ''Urgent'', OpString ''Priority''])]),
        [orgItems None, orgFields])
   \<and> setPriorityAndSize exactFloats taggingBoard [orgItems None] ''acme'' ''org'' 3 2001
       ''High'' ''XL''
     = (Err (Errorf ''Size: %w''
               [OpError (Errorf ''option %q not found in field %q''
                           [OpString ''XL'', OpString ''Size''])]),
        [orgItems None, orgFields, orgUpdate 42 ''opt1'', orgFields])
   \<and> assignIssueToOrgProjectWithFields exactFloats taggingBoard graph [] ''acme'' 3
       ''octo'' ''repo'' 7 ''High'' ''XL''
     = (Err (Errorf ''Size: %w''
               [OpError (Errorf ''option %q not found in field %q''
                           [OpString ''XL'', OpString ''Size''])]),
        [QueryIssueID ''octo'' ''repo'' 7, QueryOrganizationProjectID ''acme'' 3,
         MutateAddProjectV2ItemById (AnyString ''NODE'') (AnyString ''NODE''),
         orgItems None, orgFields, orgUpdate 42 ''opt1'', orgFields])"
proof -
  note defs = resolveSingleSelectOptionByName_def updateProjectItem_def
    buildUpdateProjectItem_def send_def json_Marshal_def fieldsPage_def orgFields_def
    orgUpdate_def orgItems_def replied_def httpResponse_def priorityField_def sizeField_def
    selectOption_def fieldNameOf_def optionNameOf_def StatusOK_def
  note inst = setPriorityAndSize_aborts_without_rollback
               [where client = taggingBoard and fl = exactFloats and log = "[orgItems None]"
                  and owner = "''acme''" and ownerType = "''org''" and projectNumber = 3
                  and itemID = 2001]
  have a: "setPriorityAndSize exactFloats taggingBoard [orgItems None] ''acme'' ''org'' 3 2001
             ''Urgent'' ''Large''
           = (Err (Errorf ''Priority: %w''
                     [OpError (Errorf ''option %q not found in field %q''
                                 [OpString ''Urgent'', OpString ''Priority''])]),
              [orgItems None, orgFields])"
    using inst[where priority = "''Urgent''" and size' = "''Large''",
              THEN conjunct2, THEN conjunct1, rule_format,
              where e = "Errorf ''option %q not found in field %q''
                           [OpString ''Urgent'', OpString ''Priority'']"]
    by (simp add: defs)
  have b: "setPriorityAndSize exactFloats taggingBoard [orgItems None] ''acme'' ''org'' 3 2001
             ''High'' ''XL''
           = (Err (Errorf ''Size: %w''
                     [OpError (Errorf ''option %q not found in field %q''
                                 [OpString ''XL'', OpString ''Size''])]),
              [orgItems None, orgFields, orgUpdate 42 ''opt1'', orgFields])"
    using inst[where priority = "''High''" and size' = "''XL''",
              THEN conjunct2, THEN conjunct2, THEN conjunct2, THEN conjunct1, rule_format,
              where optionID = "''opt1''" and fieldID = 42
                and res = "ResultText (Marshalled (Some (issueItem 2001 7 None)))"
                and e = "Errorf ''option %q not found in field %q''
                           [OpString ''XL'', OpString ''Size'']"]
    by (simp add: defs)
  have add: "addProjectItem graph [] ''acme'' ''org'' 3 ''octo'' ''repo'' 7 ''issue''
               = (Ok (ResultText (Marshalled
                    \<lparr>id = AnyString ''NODE'',
                     message = Sprintf ''Successfully added %s %s/%s#%d to project %s/%d''
                       [OpString ''issue'', OpString ''octo'', OpString ''repo'', OpInt 7,
                        OpString ''acme'', OpInt 3]\<rparr>)),
                  [QueryIssueID ''octo'' ''repo'' 7, QueryOrganizationProjectID ''acme'' 3,
                   MutateAddProjectV2ItemById (AnyString ''NODE'') (AnyString ''NODE'')])"
    by (simp add: addProjectItem_def resolveIssueNodeID_def send_def graph_def json_Marshal_def)
  have find: "findProjectItemIDByIssue taggingBoard
                [QueryIssueID ''octo'' ''repo'' 7, QueryOrganizationProjectID ''acme'' 3,
                 MutateAddProjectV2ItemById (AnyString ''NODE'') (AnyString ''NODE'')]
                ''acme'' ''org'' 3 ''octo'' ''repo'' 7
              = (Ok 2001,
                 [QueryIssueID ''octo'' ''repo'' 7, QueryOrganizationProjectID ''acme'' 3,
                  MutateAddProjectV2ItemById (AnyString ''NODE'') (AnyString ''NODE''),
                  orgItems None])"
    by (simp add: findProjectItemIDByIssue_def scanPages.simps send_def listItems_def
          itemsPage_def orgItems_def itemsReply_def replied_def httpResponse_def issueItem_def
          otherRepository_def)
  have c: "assignIssueToOrgProjectWithFields exactFloats taggingBoard graph [] ''acme'' 3
             ''octo'' ''repo'' 7 ''High'' ''XL''
           = (Err (Errorf ''Size: %w''
                     [OpError (Errorf ''option %q not found in field %q''
                                 [OpString ''XL'', OpString ''Size''])]),
              [QueryIssueID ''octo'' ''repo'' 7, QueryOrganizationProjectID ''acme'' 3,
               MutateAddProjectV2ItemById (AnyString ''NODE'') (AnyString ''NODE''),
               orgItems None, orgFields, orgUpdate 42 ''opt1'', orgFields])"
    using setPriorityAndSize_aborts_without_rollback
            [where client = taggingBoard and fl = exactFloats
               and log = "[QueryIssueID ''octo'' ''repo'' 7, QueryOrganizationProjectID ''acme'' 3,
                           MutateAddProjectV2ItemById (AnyString ''NODE'') (AnyString ''NODE''),
                           orgItems None]"
               and owner = "''acme''" and ownerType = "''org''" and projectNumber = 3
               and itemID = 2001 and priority = "''High''" and size' = "''XL''",
             THEN conjunct2, THEN conjunct2, THEN conjunct2, THEN conjunct2, THEN conjunct2,
             THEN conjunct2, rule_format,
             where gqlClient = graph and start = "[]" and org = "''acme''"
               and itemOwner = "''octo''" and itemRepo = "''repo''" and issueNumber = 7
               and e = "Errorf ''Size: %w''
                          [OpError (Errorf ''option %q not found in field %q''
                                      [OpString ''XL'', OpString ''Size''])]",
             OF conjI[OF add conjI[OF _ conjI[OF find]]]]
    by (simp add: setPriorityAndSize_def defs)
  show ?thesis using a b c by simp
qed

end
